theory Spec2Isabelle
  imports Main "HOL-Library.AList" "HOL-Library.Word"
begin

unbundle bit_operations_syntax

section \<open>Python values, exceptions and dictionaries\<close>

text \<open>
  The values the modelled code stores and returns: \<open>None\<close>, text, integers, and
  tuples or lists of values. A text is the \<open>string\<close> of its UTF-8 bytes, so that
  \<open>bytes.decode()\<close> returns the bytes it is given when they are well-formed UTF-8 and
  raises otherwise.
\<close>

datatype pyval = PNone | PStr string | PInt int | PSeq "pyval list"

text \<open>
  The calls into the zeroconf library and the clock that \<open>Freebox.__init__\<close> makes, in
  the order it makes them. Any of them may raise (a socket error, no thread left, a
  keyboard interrupt during the wait).
\<close>

datatype lib_call =
    Zeroconf_call
  | ServiceBrowser_call
  | sleep_call
  | cancel_call
  | close_call

datatype error =
    KeyError string
  | IndexError
  | TypeError
  | AttributeError string
  | UnicodeDecodeError
  | FreeboxError string
  | AuthError string
  | LibraryError lib_call
  | RequestException

text \<open>
  A \<open>dict\<close> with text keys, as the list of its items in insertion order.
  \<open>d[k] = v\<close> replaces the value of a key that is there and appends a new key
  (\<open>AList.update\<close>); \<open>d[k]\<close> raises \<open>KeyError\<close> on a missing key.
\<close>

type_synonym pydict = "(string \<times> pyval) list"

definition dict_setitem :: "pydict \<Rightarrow> string \<Rightarrow> pyval \<Rightarrow> pydict" where
  "dict_setitem d k v = AList.update k v d"

definition dict_getitem :: "pydict \<Rightarrow> string \<Rightarrow> error + pyval" where
  "dict_getitem d k = (case map_of d k of None \<Rightarrow> Inl (KeyError k) | Some v \<Rightarrow> Inr v)"

section \<open>String operations of Python used by the code\<close>

text \<open>\<open>s + x\<close> for a text \<open>s\<close>: concatenation, \<open>TypeError\<close> unless \<open>x\<close> is text too.\<close>

fun str_add :: "string \<Rightarrow> pyval \<Rightarrow> error + string" where
  "str_add s (PStr t) = Inr (s @ t)"
| "str_add s _ = Inl TypeError"

text \<open>
  \<open>s.split(c)\<close> for a one-character separator: the pieces between the occurrences of
  \<open>c\<close>, empty pieces included; a text without \<open>c\<close> is its own single piece.
\<close>

fun split_on :: "char \<Rightarrow> string \<Rightarrow> string list" where
  "split_on c [] = [[]]"
| "split_on c (x # xs) =
     (if x = c then [] # split_on c xs
      else (case split_on c xs of
              [] \<Rightarrow> [[x]]
            | w # ws \<Rightarrow> (x # w) # ws))"

text \<open>\<open>x.split(".")\<close> on a value: only text has the method.\<close>

fun py_split :: "pyval \<Rightarrow> char \<Rightarrow> error + string list" where
  "py_split (PStr s) c = Inr (split_on c s)"
| "py_split _ c = Inl (AttributeError ''split'')"

text \<open>\<open>xs[0]\<close>: \<open>IndexError\<close> on an empty list.\<close>

fun index0 :: "'a list \<Rightarrow> error + 'a" where
  "index0 [] = Inl IndexError"
| "index0 (x # xs) = Inr x"

text \<open>
  \<open>s.lower()\<close> is the interpreter's: it maps every cased character of Unicode and may
  change the length of a text. The model takes it from the environment of a call
  (\<open>str_lower\<close> below). On ASCII text it is \<open>ascii_lower\<close>, which turns \<open>A\<close> to \<open>Z\<close>
  into \<open>a\<close> to \<open>z\<close>; the concrete environments of this file, whose texts are ASCII,
  use it.
\<close>

definition lower_char :: "char \<Rightarrow> char" where
  "lower_char c =
     (let n = (of_char c :: nat) in if 65 \<le> n \<and> n \<le> 90 then char_of (n + 32) else c)"

definition ascii_lower :: "string \<Rightarrow> string" where
  "ascii_lower s = map lower_char s"

text \<open>
  \<open>b.decode()\<close> on bytes: the strict UTF-8 decoder. The well-formed sequences are
  those of the Unicode standard: one byte below \<open>0x80\<close>; a lead byte \<open>C2\<close> to \<open>DF\<close>
  and one continuation byte; \<open>E0\<close> to \<open>EF\<close> and two; \<open>F0\<close> to \<open>F4\<close> and three, the
  first continuation byte narrowed after \<open>E0\<close>, \<open>ED\<close>, \<open>F0\<close> and \<open>F4\<close> (no overlong
  form, no surrogate, nothing above \<open>U+10FFFF\<close>).
\<close>

definition cont :: "nat \<Rightarrow> bool" where
  "cont b = (0x80 \<le> b \<and> b \<le> 0xBF)"

definition second_of_three :: "nat \<Rightarrow> nat \<Rightarrow> bool" where
  "second_of_three lead b =
     (if lead = 0xE0 then 0xA0 \<le> b \<and> b \<le> 0xBF
      else if lead = 0xED then 0x80 \<le> b \<and> b \<le> 0x9F
      else cont b)"

definition second_of_four :: "nat \<Rightarrow> nat \<Rightarrow> bool" where
  "second_of_four lead b =
     (if lead = 0xF0 then 0x90 \<le> b \<and> b \<le> 0xBF
      else if lead = 0xF4 then 0x80 \<le> b \<and> b \<le> 0x8F
      else cont b)"

fun utf8_ok :: "nat list \<Rightarrow> bool" where
  "utf8_ok [] = True"
| "utf8_ok (b # bs) =
     (if b < 0x80 then utf8_ok bs
      else if 0xC2 \<le> b \<and> b \<le> 0xDF then
        (case bs of
           c1 # rest \<Rightarrow> cont c1 \<and> utf8_ok rest
         | _ \<Rightarrow> False)
      else if 0xE0 \<le> b \<and> b \<le> 0xEF then
        (case bs of
           c1 # c2 # rest \<Rightarrow> second_of_three b c1 \<and> cont c2 \<and> utf8_ok rest
         | _ \<Rightarrow> False)
      else if 0xF0 \<le> b \<and> b \<le> 0xF4 then
        (case bs of
           c1 # c2 # c3 # rest \<Rightarrow> second_of_four b c1 \<and> cont c2 \<and> cont c3 \<and> utf8_ok rest
         | _ \<Rightarrow> False)
      else False)"

definition decode :: "string \<Rightarrow> error + string" where
  "decode bs = (if utf8_ok (map of_char bs) then Inr bs else Inl UnicodeDecodeError)"

text \<open>\<open>str(n)\<close> for a byte value: its decimal digits.\<close>

definition digit_char :: "nat \<Rightarrow> char" where
  "digit_char d = char_of (48 + d)"

fun str_nat :: "nat \<Rightarrow> string" where
  "str_nat n = (if n < 10 then [digit_char n] else str_nat (n div 10) @ [digit_char (n mod 10)])"

declare str_nat.simps [simp del]

section \<open>The service record and the mDNS listener of freebox.py\<close>

text \<open>
  What \<open>zeroconf.get_service_info\<close> returns when it resolves a service: name, type,
  server, port, the four bytes of the IPv4 address, and the items of the TXT record.
  The keys of the items are bytes. A value is bytes, or the boolean zeroconf puts in
  place of \<open>true\<close>, \<open>false\<close>, an empty value and a key without \<open>=\<close>.
\<close>

datatype txt_value = TxtBytes string | TxtBool bool

record service_info =
  info_name :: string
  info_type :: string
  info_server :: string
  info_port :: int
  info_address :: "8 word \<times> 8 word \<times> 8 word \<times> 8 word"
  info_properties :: "(string \<times> txt_value) list"

text \<open>
  \<open>MDNSListener.add_service\<close> of freebox.py, on the properties of the parent
  \<open>Freebox\<close>: nothing changes when the service did not resolve (\<open>info is None\<close>);
  otherwise the five record fields are stored, then the TXT items, in this order.
  In \<open>properties[key.decode()] = value.decode()\<close> the value is decoded first, then the
  key; a boolean has no \<open>decode\<close>. The first item that raises ends the loop and the
  callback, and what was stored before it stays. The result is the exception, if any,
  and the properties after the callback.
\<close>

fun decode_value :: "txt_value \<Rightarrow> error + string" where
  "decode_value (TxtBytes bs) = decode bs"
| "decode_value (TxtBool b) = Inl (AttributeError ''decode'')"

definition address_text :: "8 word \<times> 8 word \<times> 8 word \<times> 8 word \<Rightarrow> string" where
  "address_text a =
     (case a of (a0, a1, a2, a3) \<Rightarrow>
        str_nat (unat a0) @ ''.'' @ str_nat (unat a1) @ ''.'' @ str_nat (unat a2)
          @ ''.'' @ str_nat (unat a3))"

fun store_txt :: "pydict \<Rightarrow> (string \<times> txt_value) list \<Rightarrow> error option \<times> pydict" where
  "store_txt d [] = (None, d)"
| "store_txt d (item # items) =
     (case decode_value (snd item) of
        Inl e \<Rightarrow> (Some e, d)
      | Inr v \<Rightarrow>
          (case decode (fst item) of
             Inl e \<Rightarrow> (Some e, d)
           | Inr k \<Rightarrow> store_txt (dict_setitem d k (PStr v)) items))"

definition add_service :: "pydict \<Rightarrow> service_info option \<Rightarrow> error option \<times> pydict" where
  "add_service props info =
     (case info of
        None \<Rightarrow> (None, props)
      | Some i \<Rightarrow>
          (let p1 = dict_setitem props ''name'' (PStr (info_name i));
               p2 = dict_setitem p1 ''type'' (PStr (info_type i));
               p3 = dict_setitem p2 ''server'' (PStr (info_server i));
               p4 = dict_setitem p3 ''port'' (PInt (info_port i));
               p5 = dict_setitem p4 ''address'' (PStr (address_text (info_address i)))
           in store_txt p5 (info_properties i)))"

text \<open>
  \<open>MDNSListener.add_service\<close> of freeprobe.py: the listener keeps whatever the last
  call of \<open>get_service_info\<close> returned, \<open>None\<close> included.
\<close>

definition freeprobe_add_service ::
  "service_info option \<Rightarrow> service_info option \<Rightarrow> service_info option" where
  "freeprobe_add_service held info = info"

section \<open>Discovery: \<open>Freebox.__init__\<close>\<close>

text \<open>
  The environment of one construction: the result of \<open>get_service_info\<close> in each
  \<open>add_service\<close> callback that runs between the start of the browser and its cancel,
  in order, and the library call that raises, if one does. A callback runs in the thread
  of the browser: an exception it raises does not reach the constructor, and the
  properties it has stored stay.
\<close>

record disc_env =
  events :: "service_info option list"
  raises :: "lib_call option"

datatype http_request = POST string pydict | GET string

record http_response =
  status_code :: int
  json :: pydict

text \<open>What a run does to the outside, in order.\<close>

datatype action =
    OpenZeroconf
  | StartBrowser string
  | CancelBrowser
  | CloseZeroconf
  | Enter string
  | Http http_request
  | Print string

definition callbacks :: "service_info option list \<Rightarrow> pydict \<Rightarrow> pydict" where
  "callbacks es props = fold (\<lambda>e p. snd (add_service p e)) es props"

definition TYPE_const :: string where
  "TYPE_const = ''_fbx-api._tcp.local.''"

definition not_found_message :: string where
  "not_found_message = ''Fatal: Unable to find a Freebox on the local network!''"

text \<open>The names the class body of \<open>Freebox\<close> binds, in freebox.py and in fbx.py.\<close>

definition freebox_members :: "string list" where
  "freebox_members =
     [''_TYPE'', ''MDNSListener'', ''__init__'', ''_full_api_url'', ''register'',
      ''get_metrics'', ''push_metrics'', ''print_metrics'', ''properties'']"

definition fbx_members :: "string list" where
  "fbx_members =
     [''_TYPE'', ''__init__'', ''_full_api_url'', ''register'',
      ''get_metrics'', ''push_metrics'', ''print_metrics'', ''properties'']"

text \<open>
  The body of \<open>__init__\<close>, the same text in freebox.py and fbx.py, run against the
  members of the class it stands in. The first statement reads \<open>Freebox.MDNSListener\<close>;
  then come \<open>Zeroconf()\<close>, \<open>ServiceBrowser(...)\<close>, \<open>time.sleep(2)\<close>,
  \<open>browser.cancel()\<close>, \<open>zeroconf.close()\<close> and the test of the properties. There is
  no \<open>try\<close>: a call that raises ends the constructor there.
\<close>

definition Freebox_init :: "string list \<Rightarrow> disc_env \<Rightarrow> (error + pydict) \<times> action list" where
  "Freebox_init members env =
     (if ''MDNSListener'' \<notin> set members then (Inl (AttributeError ''MDNSListener''), [])
      else if raises env = Some Zeroconf_call then (Inl (LibraryError Zeroconf_call), [])
      else if ''_TYPE'' \<notin> set members then (Inl (AttributeError ''_TYPE''), [OpenZeroconf])
      else if raises env = Some ServiceBrowser_call
        then (Inl (LibraryError ServiceBrowser_call), [OpenZeroconf])
      else if raises env = Some sleep_call
        then (Inl (LibraryError sleep_call), [OpenZeroconf, StartBrowser TYPE_const])
      else if raises env = Some cancel_call
        then (Inl (LibraryError cancel_call), [OpenZeroconf, StartBrowser TYPE_const])
      else if raises env = Some close_call
        then (Inl (LibraryError close_call),
              [OpenZeroconf, StartBrowser TYPE_const, CancelBrowser])
      else
        (let props = callbacks (events env) [];
             trace = [OpenZeroconf, StartBrowser TYPE_const, CancelBrowser, CloseZeroconf]
         in if props = [] then (Inl (FreeboxError not_found_message), trace)
            else (Inr props, trace)))"

definition freebox_Freebox_init :: "disc_env \<Rightarrow> (error + pydict) \<times> action list" where
  "freebox_Freebox_init env = Freebox_init freebox_members env"

definition fbx_Freebox_init :: "disc_env \<Rightarrow> (error + pydict) \<times> action list" where
  "fbx_Freebox_init env = Freebox_init fbx_members env"

text \<open>
  \<open>Freebox.__init__\<close> of freeprobe.py: the same calls (the wait is 5 seconds), and the
  test is on the record the listener holds at the end.
\<close>

definition freeprobe_Freebox_init ::
  "disc_env \<Rightarrow> (error + service_info) \<times> action list" where
  "freeprobe_Freebox_init env =
     (if raises env = Some Zeroconf_call then (Inl (LibraryError Zeroconf_call), [])
      else if raises env = Some ServiceBrowser_call
        then (Inl (LibraryError ServiceBrowser_call), [OpenZeroconf])
      else if raises env = Some sleep_call
        then (Inl (LibraryError sleep_call), [OpenZeroconf, StartBrowser TYPE_const])
      else if raises env = Some cancel_call
        then (Inl (LibraryError cancel_call), [OpenZeroconf, StartBrowser TYPE_const])
      else if raises env = Some close_call
        then (Inl (LibraryError close_call),
              [OpenZeroconf, StartBrowser TYPE_const, CancelBrowser])
      else
        (let held = fold (\<lambda>e h. freeprobe_add_service h e) (events env) None;
             trace = [OpenZeroconf, StartBrowser TYPE_const, CancelBrowser, CloseZeroconf]
         in case held of
              None \<Rightarrow> (Inl (FreeboxError not_found_message), trace)
            | Some i \<Rightarrow> (Inr i, trace)))"

section \<open>\<open>Freebox._full_api_url\<close>\<close>

text \<open>
  The same text in freebox.py and fbx.py. The sum is evaluated left to right: each
  property is read (\<open>KeyError\<close>) and added (\<open>TypeError\<close>) in turn.
\<close>

definition full_api_url :: "pydict \<Rightarrow> string \<Rightarrow> error + string" where
  "full_api_url props api_url =
     (case dict_getitem props ''api_domain'' of Inl e \<Rightarrow> Inl e | Inr d \<Rightarrow>
     (case str_add ''https://'' d of Inl e \<Rightarrow> Inl e | Inr u1 \<Rightarrow>
     (case dict_getitem props ''api_base_url'' of Inl e \<Rightarrow> Inl e | Inr b \<Rightarrow>
     (case str_add u1 b of Inl e \<Rightarrow> Inl e | Inr u2 \<Rightarrow>
     (case dict_getitem props ''api_version'' of Inl e \<Rightarrow> Inl e | Inr v \<Rightarrow>
     (case py_split v (CHR ''.'') of Inl e \<Rightarrow> Inl e | Inr parts \<Rightarrow>
     (case index0 parts of Inl e \<Rightarrow> Inl e | Inr major \<Rightarrow>
        Inr (u2 @ ''v'' @ major @ api_url))))))))"

section \<open>\<open>Freebox.register\<close> and \<open>Freebox.get_metrics\<close>\<close>

text \<open>
  The environment of a call: the host name \<open>platform.node()\<close> returns, the directory
  of the running script, the interpreter's \<open>str.lower\<close>, and the device, which answers
  a request or makes \<open>requests\<close> raise.
\<close>

record call_env =
  node :: string
  script_dir :: string
  str_lower :: "string \<Rightarrow> string"
  device :: "http_request \<Rightarrow> error + http_response"

text \<open>
  \<open>register\<close>, the same text in freebox.py and fbx.py: the URL, the dictionary, the
  directory \<open>ssl_dir\<close> (computed and not used), one \<open>requests.post\<close> of the
  dictionary through \<open>json.dumps\<close>, and a bare \<open>return\<close>. The answer \<open>r\<close> of the
  device is not read. The request is kept with the dictionary \<open>json.dumps\<close> was given.
\<close>

definition register_data :: "call_env \<Rightarrow> string \<Rightarrow> string \<Rightarrow> pydict" where
  "register_data env app_name app_version =
     [(''app_id'', PStr (''fr.freebox.'' @ str_lower env app_name)),
      (''app_name'', PStr app_name),
      (''app_version'', PStr app_version),
      (''device_name'', PStr (node env))]"

definition register ::
  "pydict \<Rightarrow> string \<Rightarrow> string \<Rightarrow> call_env \<Rightarrow> (error + pyval) \<times> action list" where
  "register props app_name app_version env =
     (case full_api_url props ''/login/authorize/'' of
        Inl e \<Rightarrow> (Inl e, [])
      | Inr url \<Rightarrow>
          (let data = register_data env app_name app_version;
               ssl_dir = script_dir env @ ''/ssl'';
               req = POST url data
           in (case device env req of
                 Inl e \<Rightarrow> (Inl e, [Http req])
               | Inr r \<Rightarrow> (Inr PNone, [Http req]))))"

text \<open>\<open>get_metrics\<close>: its body is \<open>pass\<close>.\<close>

definition get_metrics :: "pydict \<Rightarrow> call_env \<Rightarrow> (error + pyval) \<times> action list" where
  "get_metrics props env = (Inr PNone, [])"

section \<open>The script fbxmetrics.py\<close>

fun join :: "string \<Rightarrow> string list \<Rightarrow> string" where
  "join sep [] = []"
| "join sep [x] = x"
| "join sep (x # y # ys) = x @ sep @ join sep (y # ys)"

definition version_info :: "string list" where
  "version_info = [''0'', ''0'', ''1'']"

definition version :: string where
  "version = join ''.'' version_info"

definition APP_NAME :: string where
  "APP_NAME = ''FreeProbe''"

text \<open>
  The command line after \<open>parse_args\<close>: the two flags, or the exit \<open>argparse\<close> makes
  itself (help, version, a bad option).
\<close>

datatype cli = Parsed bool bool | ParserExit int

datatype outcome = Returned | SysExit int | Uncaught error

text \<open>
  Each \<open>try\<close> of \<open>main\<close> catches \<open>FreeboxError\<close> only, prints its message and exits
  with status 1; any other exception leaves \<open>main\<close>.
\<close>

fun except_FreeboxError :: "error \<Rightarrow> outcome \<times> action list" where
  "except_FreeboxError (FreeboxError m) = (SysExit 1, [Print m])"
| "except_FreeboxError e = (Uncaught e, [])"

definition guarded :: "(error + 'a) \<times> action list \<Rightarrow> outcome \<times> action list" where
  "guarded r =
     (case r of
        (Inl e, t) \<Rightarrow> (fst (except_FreeboxError e), t @ snd (except_FreeboxError e))
      | (Inr v, t) \<Rightarrow> (Returned, t))"

text \<open>\<open>main\<close> of fbxmetrics.py, whose \<open>Freebox\<close> is the class of fbx.py.\<close>

definition main :: "cli \<Rightarrow> disc_env \<Rightarrow> call_env \<Rightarrow> outcome \<times> action list" where
  "main args denv cenv =
     (case args of
        ParserExit n \<Rightarrow> (SysExit n, [])
      | Parsed arg_register arg_dry_run \<Rightarrow>
          (case fbx_Freebox_init denv of
             (Inl e, t) \<Rightarrow> (fst (except_FreeboxError e), t @ snd (except_FreeboxError e))
           | (Inr props, t) \<Rightarrow>
               (if arg_register
                then (let r = guarded (register props APP_NAME version cenv)
                      in (fst r, t @ [Enter ''register''] @ snd r))
                else (let r = guarded (get_metrics props cenv)
                      in (fst r, t @ [Enter ''get_metrics''] @ snd r)))))"

section \<open>Opening a session\<close>

text \<open>
  Modelled from the spec: no file of the repository opens a session. None requests a
  challenge, computes a digest or posts a password, and none imports a hash function.
  The definitions of this section follow section 4.3 of the specification, with SHA-1
  and HMAC written out from their standards (FIPS 180 and RFC 2104) over bytes and
  32-bit words.
\<close>

text \<open>
  Modelled from the spec: SHA-1. Rotation to the left, the round function and the round
  constant of round \<open>t\<close>.
\<close>

definition rotl :: "nat \<Rightarrow> 32 word \<Rightarrow> 32 word" where
  "rotl n w = push_bit n w OR drop_bit (32 - n) w"

definition sha1_f :: "nat \<Rightarrow> 32 word \<Rightarrow> 32 word \<Rightarrow> 32 word \<Rightarrow> 32 word" where
  "sha1_f t b c d =
     (if t < 20 then (b AND c) OR (NOT b AND d)
      else if t < 40 then b XOR c XOR d
      else if t < 60 then (b AND c) OR (b AND d) OR (c AND d)
      else b XOR c XOR d)"

definition sha1_k :: "nat \<Rightarrow> 32 word" where
  "sha1_k t =
     (if t < 20 then 0x5A827999 else if t < 40 then 0x6ED9EBA1
      else if t < 60 then 0x8F1BBCDC else 0xCA62C1D6)"

text \<open>
  Modelled from the spec: SHA-1. Bytes to big-endian words and back, and the padding of
  a message: the byte \<open>0x80\<close>, zero bytes up to 56 modulo 64, and the length in bits on
  8 bytes.
\<close>

definition be32 :: "8 word \<Rightarrow> 8 word \<Rightarrow> 8 word \<Rightarrow> 8 word \<Rightarrow> 32 word" where
  "be32 a b c d =
     push_bit 24 (ucast a) OR push_bit 16 (ucast b) OR push_bit 8 (ucast c) OR ucast d"

fun words_of :: "8 word list \<Rightarrow> 32 word list" where
  "words_of (a # b # c # d # rest) = be32 a b c d # words_of rest"
| "words_of bs = []"

definition bytes_of32 :: "32 word \<Rightarrow> 8 word list" where
  "bytes_of32 w = [ucast (drop_bit 24 w), ucast (drop_bit 16 w), ucast (drop_bit 8 w), ucast w]"

definition length_bytes :: "nat \<Rightarrow> 8 word list" where
  "length_bytes n =
     bytes_of32 (word_of_nat ((8 * n) div 2 ^ 32)) @ bytes_of32 (word_of_nat (8 * n))"

definition pad :: "8 word list \<Rightarrow> 8 word list" where
  "pad m =
     m @ [0x80] @ replicate ((119 - length m mod 64) mod 64) 0 @ length_bytes (length m)"

text \<open>
  Modelled from the spec: SHA-1. The message schedule extends the 16 words of a block
  to 80 (the list is kept newest first while it grows); 80 rounds then update the five
  working words, and the result is added to the chaining value.
\<close>

fun extend :: "nat \<Rightarrow> 32 word list \<Rightarrow> 32 word list" where
  "extend n ws =
     (if n = 0 then ws
      else extend (n - 1) (rotl 1 (ws ! 2 XOR ws ! 7 XOR ws ! 13 XOR ws ! 15) # ws))"

declare extend.simps [simp del]

definition schedule :: "32 word list \<Rightarrow> 32 word list" where
  "schedule block = rev (extend 64 (rev block))"

type_synonym sha1_state = "32 word \<times> 32 word \<times> 32 word \<times> 32 word \<times> 32 word"

fun round_step :: "nat \<Rightarrow> sha1_state \<Rightarrow> 32 word \<Rightarrow> sha1_state" where
  "round_step t (a, b, c, d, e) w =
     (rotl 5 a + sha1_f t b c d + e + sha1_k t + w, a, rotl 30 b, c, d)"

fun rounds :: "nat \<Rightarrow> sha1_state \<Rightarrow> 32 word list \<Rightarrow> sha1_state" where
  "rounds t s [] = s"
| "rounds t s (w # ws) = rounds (t + 1) (round_step t s w) ws"

fun add_state :: "sha1_state \<Rightarrow> sha1_state \<Rightarrow> sha1_state" where
  "add_state (a, b, c, d, e) (a', b', c', d', e') = (a + a', b + b', c + c', d + d', e + e')"

definition compress :: "sha1_state \<Rightarrow> 32 word list \<Rightarrow> sha1_state" where
  "compress h block = add_state h (rounds 0 h (schedule block))"

text \<open>
  Modelled from the spec: SHA-1 of a message, the chaining value folded over the
  16-word blocks of the padded message.
\<close>

fun blocks :: "32 word list \<Rightarrow> 32 word list list" where
  "blocks ws = (if ws = [] then [] else take 16 ws # blocks (drop 16 ws))"

declare blocks.simps [simp del]

definition sha1_init :: sha1_state where
  "sha1_init = (0x67452301, 0xEFCDAB89, 0x98BADCFE, 0x10325476, 0xC3D2E1F0)"

fun state_bytes :: "sha1_state \<Rightarrow> 8 word list" where
  "state_bytes (a, b, c, d, e) =
     bytes_of32 a @ bytes_of32 b @ bytes_of32 c @ bytes_of32 d @ bytes_of32 e"

definition sha1 :: "8 word list \<Rightarrow> 8 word list" where
  "sha1 m = state_bytes (foldl compress sha1_init (blocks (words_of (pad m))))"

text \<open>
  Modelled from the spec: HMAC over SHA-1. A key longer than a block is hashed first;
  the key is filled with zero bytes to 64.
\<close>

definition hmac_key :: "8 word list \<Rightarrow> 8 word list" where
  "hmac_key key =
     (if length key > 64 then sha1 key @ replicate 44 0
      else key @ replicate (64 - length key) 0)"

definition hmac_sha1 :: "8 word list \<Rightarrow> 8 word list \<Rightarrow> 8 word list" where
  "hmac_sha1 key msg =
     sha1 (map (\<lambda>b. b XOR 0x5C) (hmac_key key)
           @ sha1 (map (\<lambda>b. b XOR 0x36) (hmac_key key) @ msg))"

text \<open>
  Modelled from the spec: lower-case hexadecimal text of bytes, and the bytes of an
  ASCII text.
\<close>

definition hex_digit :: "nat \<Rightarrow> char" where
  "hex_digit n = ''0123456789abcdef'' ! n"

definition hex :: "8 word list \<Rightarrow> string" where
  "hex bs = concat (map (\<lambda>b. [hex_digit (unat b div 16), hex_digit (unat b mod 16)]) bs)"

definition encode :: "string \<Rightarrow> 8 word list" where
  "encode s = map of_char s"

text \<open>
  Modelled from the spec: the password of section 4.3,
  \<open>HMAC-SHA1(key=appToken, message=challenge)\<close>, hex-encoded.
\<close>

definition password :: "string \<Rightarrow> string \<Rightarrow> string" where
  "password app_token challenge = hex (hmac_sha1 (encode app_token) (encode challenge))"

text \<open>
  Modelled from the spec: \<open>openSession\<close> of section 4.3 on a base URL. GET
  \<open>/login/\<close> returns the challenge; the password is computed; POST \<open>/login/session/\<close>
  sends \<open>app_id\<close> and \<open>password\<close> and returns the session token. A response without
  a challenge or without a session token is an \<open>AuthError\<close>.
\<close>

definition open_session ::
  "string \<Rightarrow> string \<Rightarrow> string \<Rightarrow> call_env \<Rightarrow> (error + string) \<times> action list" where
  "open_session base_url app_id app_token env =
     (case device env (GET (base_url @ ''/login/'')) of
        Inl e \<Rightarrow> (Inl e, [Http (GET (base_url @ ''/login/''))])
      | Inr r \<Rightarrow>
          (case map_of (json r) ''challenge'' of
             Some (PStr challenge) \<Rightarrow>
               (let req = POST (base_url @ ''/login/session/'')
                            [(''app_id'', PStr app_id),
                             (''password'', PStr (password app_token challenge))]
                in (case device env req of
                      Inl e \<Rightarrow> (Inl e, [Http (GET (base_url @ ''/login/'')), Http req])
                    | Inr r2 \<Rightarrow>
                        (case map_of (json r2) ''session_token'' of
                           Some (PStr token) \<Rightarrow>
                             (Inr token, [Http (GET (base_url @ ''/login/'')), Http req])
                         | _ \<Rightarrow>
                             (Inl (AuthError ''no session token''),
                              [Http (GET (base_url @ ''/login/'')), Http req]))))
           | _ \<Rightarrow>
               (Inl (AuthError ''malformed challenge response''),
                [Http (GET (base_url @ ''/login/''))])))"

section \<open>Observations on a run\<close>

text \<open>A polling request is a \<open>GET\<close>; \<open>polls\<close> counts them in a trace.\<close>

fun is_poll :: "action \<Rightarrow> bool" where
  "is_poll (Http (GET url)) = True"
| "is_poll a = False"

definition polls :: "action list \<Rightarrow> nat" where
  "polls t = length (filter is_poll t)"

text \<open>
  What \<open>add_service\<close> stores: text under every key, or the integer port under
  \<open>port\<close>.
\<close>

definition text_or_port :: "string \<times> pyval \<Rightarrow> bool" where
  "text_or_port kv =
     (case snd kv of PStr s \<Rightarrow> True | PInt n \<Rightarrow> fst kv = ''port'' | _ \<Rightarrow> False)"

text \<open>
  The exception a TXT item raises in the loop of \<open>add_service\<close>, if it raises one, and
  the TXT records all of whose items are stored.
\<close>

definition item_error :: "string \<times> txt_value \<Rightarrow> error option" where
  "item_error item =
     (case decode_value (snd item) of
        Inl e \<Rightarrow> Some e
      | Inr v \<Rightarrow> (case decode (fst item) of Inl e \<Rightarrow> Some e | Inr k \<Rightarrow> None))"

definition txt_decodes :: "(string \<times> txt_value) list \<Rightarrow> bool" where
  "txt_decodes items = list_all (\<lambda>item. item_error item = None) items"

section \<open>Concrete inputs\<close>

definition example_props :: pydict where
  "example_props =
     [(''api_domain'', PStr ''mafreebox.freeboxos.fr''),
      (''api_base_url'', PStr ''/api/''),
      (''api_version'', PStr ''8.1'')]"

text \<open>A device that answers the authorize request and grants at the first poll.\<close>

definition granting_device :: "http_request \<Rightarrow> error + http_response" where
  "granting_device req =
     (case req of
        POST url body \<Rightarrow>
          Inr \<lparr>status_code = 200, json = [(''app_token'', PStr ''tok''), (''track_id'', PInt 42)]\<rparr>
      | GET url \<Rightarrow> Inr \<lparr>status_code = 200, json = [(''status'', PStr ''granted'')]\<rparr>)"

definition granting_env :: call_env where
  "granting_env =
     \<lparr>node = ''probe-host'', script_dir = ''/opt/fbxmetrics'', str_lower = ascii_lower,
      device = granting_device\<rparr>"

text \<open>
  A resolved record of a Freebox, and the same record with an empty TXT record.
\<close>

definition example_info :: service_info where
  "example_info =
     \<lparr>info_name = ''Freebox Server._fbx-api._tcp.local.'',
      info_type = ''_fbx-api._tcp.local.'',
      info_server = ''Freebox-Server.local.'',
      info_port = 80,
      info_address = (192, 168, 1, 254),
      info_properties =
        [(''api_version'', TxtBytes ''8.1''),
         (''device_type'', TxtBytes ''FreeboxServer7,1''),
         (''api_base_url'', TxtBytes ''/api/''),
         (''uid'', TxtBytes ''x''),
         (''api_domain'', TxtBytes ''mafreebox.freeboxos.fr''),
         (''https_available'', TxtBytes ''1''),
         (''https_port'', TxtBytes ''4242'')]\<rparr>"

text \<open>
  The same record when the device advertises \<open>https_available=true\<close>: zeroconf hands
  the value over as a boolean.
\<close>

definition flag_info :: service_info where
  "flag_info =
     example_info\<lparr>info_properties :=
       [(''api_version'', TxtBytes ''8.1''),
        (''https_available'', TxtBool True),
        (''api_domain'', TxtBytes ''mafreebox.freeboxos.fr'')]\<rparr>"

definition bare_info :: service_info where
  "bare_info = example_info\<lparr>info_properties := []\<rparr>"

definition full_trace :: "action list" where
  "full_trace = [OpenZeroconf, StartBrowser TYPE_const, CancelBrowser, CloseZeroconf]"

text \<open>
  A device with three counter endpoints: two answer with a counter, the third with a
  body that holds none.
\<close>

definition three_endpoint_device :: "http_request \<Rightarrow> error + http_response" where
  "three_endpoint_device req =
     (case req of
        POST url body \<Rightarrow> Inl RequestException
      | GET url \<Rightarrow>
          (if url = ''https://mafreebox.freeboxos.fr/api/v8/connection/''
           then Inr \<lparr>status_code = 200, json = [(''rate_down'', PInt 12345)]\<rparr>
           else if url = ''https://mafreebox.freeboxos.fr/api/v8/system/''
           then Inr \<lparr>status_code = 200, json = [(''uptime_val'', PInt 3600)]\<rparr>
           else Inr \<lparr>status_code = 200, json = []\<rparr>))"

definition three_endpoint_env :: call_env where
  "three_endpoint_env =
     \<lparr>node = ''probe-host'', script_dir = ''/opt/fbxmetrics'', str_lower = ascii_lower,
      device = three_endpoint_device\<rparr>"

text \<open>A device that hands out the challenge \<open>abc123\<close> and accepts the session.\<close>

definition challenge_device :: "http_request \<Rightarrow> error + http_response" where
  "challenge_device req =
     (case req of
        GET url \<Rightarrow> Inr \<lparr>status_code = 200, json = [(''challenge'', PStr ''abc123'')]\<rparr>
      | POST url body \<Rightarrow>
          Inr \<lparr>status_code = 200, json = [(''session_token'', PStr ''session-1'')]\<rparr>)"

definition challenge_env :: call_env where
  "challenge_env =
     \<lparr>node = ''probe-host'', script_dir = ''/opt/fbxmetrics'', str_lower = ascii_lower,
      device = challenge_device\<rparr>"

section \<open>Building the API URL\<close>

lemma split_on_not_Nil: "split_on c s \<noteq> []"
  by (induction s) (auto split: list.splits)

lemma index0_split_on: "index0 (split_on c s) = Inr (takeWhile (\<lambda>x. x \<noteq> c) s)"
proof (induction s)
  case Nil
  show ?case by simp
next
  case (Cons x xs)
  then show ?case
    by (cases "split_on c xs") (auto simp: split_on_not_Nil)
qed

lemma split_on_example: "split_on (CHR ''.'') ''8.1'' = [''8'', ''1'']"
  by simp

lemma dict_getitem_Some: "map_of d k = Some v \<Longrightarrow> dict_getitem d k = Inr v"
  by (simp add: dict_getitem_def)

lemma dict_getitem_None: "map_of d k = None \<Longrightarrow> dict_getitem d k = Inl (KeyError k)"
  by (simp add: dict_getitem_def)

lemma full_api_url_text:
  assumes "map_of props ''api_domain'' = Some (PStr d)"
    and "map_of props ''api_base_url'' = Some (PStr b)"
    and "map_of props ''api_version'' = Some (PStr v)"
  shows "full_api_url props p =
           Inr (''https://'' @ d @ b @ ''v'' @ takeWhile (\<lambda>c. c \<noteq> CHR ''.'') v @ p)"
  using assms by (simp add: full_api_url_def dict_getitem_Some index0_split_on)

section \<open>Registration\<close>

lemma register_no_url:
  "full_api_url props ''/login/authorize/'' = Inl e \<Longrightarrow>
     register props app_name app_version env = (Inl e, [])"
  by (simp add: register_def)


lemma register_answered:
  "full_api_url props ''/login/authorize/'' = Inr url \<Longrightarrow>
   device env (POST url (register_data env app_name app_version)) = Inr r \<Longrightarrow>
     register props app_name app_version env =
       (Inr PNone, [Http (POST url (register_data env app_name app_version))])"
  by (simp add: register_def Let_def)

lemma polls_register: "polls (snd (register props app_name app_version env)) = 0"
  by (simp add: register_def polls_def Let_def split: sum.split)

lemma lower_FreeProbe: "ascii_lower ''FreeProbe'' = ''freeprobe''"
  by code_simp

lemma length_ascii_lower: "length (ascii_lower s) = length s"
  by (simp add: ascii_lower_def)

lemma example_url:
  "full_api_url example_props ''/login/authorize/'' =
     Inr ''https://mafreebox.freeboxos.fr/api/v8/login/authorize/''"
  by (simp add: full_api_url_def dict_getitem_def example_props_def)



text \<open>
  C3, as stated, fails: against a device that answers the authorize request and would
  grant at the first poll, \<open>register\<close> sends no poll at all and returns \<open>None\<close>, not
  the token after one poll.
\<close>

theorem register_polls_counterexample:
  "device granting_env (GET ''https://mafreebox.freeboxos.fr/api/v8/login/authorize/42'') =
     Inr \<lparr>status_code = 200, json = [(''status'', PStr ''granted'')]\<rparr> \<and>
   fst (register example_props ''FreeProbe'' ''0.0.1'' granting_env) = Inr PNone \<and>
   polls (snd (register example_props ''FreeProbe'' ''0.0.1'' granting_env)) = 0 \<and>
   \<not> (fst (register example_props ''FreeProbe'' ''0.0.1'' granting_env) = Inr (PStr ''tok'') \<and>
      polls (snd (register example_props ''FreeProbe'' ''0.0.1'' granting_env)) = 1)"
  by (simp add: register_def example_url granting_env_def granting_device_def polls_def)

text \<open>
  C3, amended. In every run of \<open>register\<close> in which the authorize POST succeeds, that
  POST is the only request: no polling request is sent, whatever status the device would
  report, and \<open>register\<close> returns at once without a value and without an error.
\<close>

theorem register_never_polls:
  "full_api_url props ''/login/authorize/'' = Inr url \<and>
   device env (POST url (register_data env app_name app_version)) = Inr r \<longrightarrow>
     snd (register props app_name app_version env) =
       [Http (POST url (register_data env app_name app_version))] \<and>
     polls (snd (register props app_name app_version env)) = 0 \<and>
     fst (register props app_name app_version env) = Inr PNone"
  by (simp add: register_answered polls_def)

theorem register_never_polls_witness:
  "full_api_url example_props ''/login/authorize/'' =
     Inr ''https://mafreebox.freeboxos.fr/api/v8/login/authorize/'' \<and>
   device granting_env
     (POST ''https://mafreebox.freeboxos.fr/api/v8/login/authorize/''
        (register_data granting_env ''FreeProbe'' ''0.0.1'')) =
     Inr \<lparr>status_code = 200, json = [(''app_token'', PStr ''tok''), (''track_id'', PInt 42)]\<rparr> \<and>
   polls (snd (register example_props ''FreeProbe'' ''0.0.1'' granting_env)) = 0 \<and>
   fst (register example_props ''FreeProbe'' ''0.0.1'' granting_env) = Inr PNone"
  using register_never_polls [of example_props
      "''https://mafreebox.freeboxos.fr/api/v8/login/authorize/''" granting_env
      "''FreeProbe''" "''0.0.1''"
      "\<lparr>status_code = 200, json = [(''app_token'', PStr ''tok''), (''track_id'', PInt 42)]\<rparr>"]
  by (simp add: example_url granting_env_def granting_device_def polls_def)

text \<open>
  C4, as stated, fails: the device answers the authorize request with the token \<open>tok\<close>
  and the track id 42, and \<open>register\<close> returns \<open>None\<close>, not that pair; its whole trace
  is the one POST.
\<close>

theorem register_result_counterexample:
  "fst (register example_props ''FreeProbe'' ''0.0.1'' granting_env)
     \<noteq> Inr (PSeq [PStr ''tok'', PInt 42]) \<and>
   register example_props ''FreeProbe'' ''0.0.1'' granting_env =
     (Inr PNone,
      [Http (POST ''https://mafreebox.freeboxos.fr/api/v8/login/authorize/''
         [(''app_id'', PStr ''fr.freebox.freeprobe''),
          (''app_name'', PStr ''FreeProbe''),
          (''app_version'', PStr ''0.0.1''),
          (''device_name'', PStr ''probe-host'')])])"
  by (simp add: register_def example_url granting_env_def granting_device_def register_data_def
      lower_FreeProbe)

text \<open>
  C4, amended. For every registration whose authorize POST succeeds, \<open>register\<close>
  returns no value (\<open>None\<close>), whatever the device answered: it does not return a
  pair of token and track id.
\<close>

theorem register_returns_None:
  "full_api_url props ''/login/authorize/'' = Inr url \<and>
   device env (POST url (register_data env app_name app_version)) = Inr r \<longrightarrow>
     fst (register props app_name app_version env) = Inr PNone \<and>
     fst (register props app_name app_version env) \<noteq> Inr (PSeq [token, track_id])"
  by (simp add: register_answered)

theorem register_returns_None_witness:
  "full_api_url example_props ''/login/authorize/'' =
     Inr ''https://mafreebox.freeboxos.fr/api/v8/login/authorize/'' \<and>
   device granting_env
     (POST ''https://mafreebox.freeboxos.fr/api/v8/login/authorize/''
        (register_data granting_env ''FreeProbe'' ''0.0.1'')) =
     Inr \<lparr>status_code = 200, json = [(''app_token'', PStr ''tok''), (''track_id'', PInt 42)]\<rparr> \<and>
   fst (register example_props ''FreeProbe'' ''0.0.1'' granting_env) = Inr PNone \<and>
   fst (register example_props ''FreeProbe'' ''0.0.1'' granting_env)
     \<noteq> Inr (PSeq [PStr ''tok'', PInt 42])"
  using register_returns_None [of example_props
      "''https://mafreebox.freeboxos.fr/api/v8/login/authorize/''" granting_env
      "''FreeProbe''" "''0.0.1''"
      "\<lparr>status_code = 200, json = [(''app_token'', PStr ''tok''), (''track_id'', PInt 42)]\<rparr>"
      "PStr ''tok''" "PInt 42"]
  by (simp add: example_url granting_env_def granting_device_def)

section \<open>Metric collection\<close>

text \<open>
  C8, as stated, fails: with three endpoints of which two answer with a counter and
  one with a body that holds none, \<open>get_metrics\<close> returns \<open>None\<close> and sends no request;
  it does not return two samples and a failure count of 1.
\<close>

theorem get_metrics_counterexample:
  "device three_endpoint_env (GET ''https://mafreebox.freeboxos.fr/api/v8/connection/'') =
     Inr \<lparr>status_code = 200, json = [(''rate_down'', PInt 12345)]\<rparr> \<and>
   device three_endpoint_env (GET ''https://mafreebox.freeboxos.fr/api/v8/system/'') =
     Inr \<lparr>status_code = 200, json = [(''uptime_val'', PInt 3600)]\<rparr> \<and>
   device three_endpoint_env (GET ''https://mafreebox.freeboxos.fr/api/v8/connection/xdsl/'') =
     Inr \<lparr>status_code = 200, json = []\<rparr> \<and>
   get_metrics example_props three_endpoint_env = (Inr PNone, []) \<and>
   fst (get_metrics example_props three_endpoint_env)
     \<noteq> Inr (PSeq [PSeq [PSeq [PStr ''freebox_connection_rate_down'', PInt 12345],
                        PSeq [PStr ''freebox_system_uptime_val'', PInt 3600]],
                  PInt 1])"
  by (simp add: get_metrics_def three_endpoint_env_def three_endpoint_device_def)

text \<open>
  C8, amended. \<open>get_metrics\<close> never raises, whatever the endpoints would answer: it
  sends no request to any endpoint and returns \<open>None\<close>, so it returns neither samples
  nor a count of failed endpoints.
\<close>

theorem get_metrics_does_nothing:
  "get_metrics props env = (Inr PNone, []) \<and>
   fst (get_metrics props env) \<noteq> Inl e \<and>
   fst (get_metrics props env) \<noteq> Inr (PSeq [PSeq samples, PInt failures])"
  by (simp add: get_metrics_def)

section \<open>Discovery\<close>

lemma dict_setitem_not_Nil: "dict_setitem d k v \<noteq> []"
  by (simp add: dict_setitem_def)

lemma decode_Inr: "decode bs = Inr k \<Longrightarrow> k = bs"
  by (simp add: decode_def split: if_splits)

lemma store_txt_not_Nil: "d \<noteq> [] \<Longrightarrow> snd (store_txt d items) \<noteq> []"
  by (induction items arbitrary: d) (simp_all add: dict_setitem_not_Nil split: sum.split)

lemma add_service_None: "add_service props None = (None, props)"
  by (simp add: add_service_def)

lemma add_service_Some_not_Nil: "snd (add_service props (Some i)) \<noteq> []"
  by (simp add: add_service_def Let_def store_txt_not_Nil dict_setitem_not_Nil)

lemma add_service_not_Nil: "props \<noteq> [] \<Longrightarrow> snd (add_service props e) \<noteq> []"
  by (cases e) (simp_all add: add_service_None add_service_Some_not_Nil)

lemma callbacks_Nil: "callbacks [] props = props"
  by (simp add: callbacks_def)

lemma callbacks_Cons: "callbacks (e # es) props = callbacks es (snd (add_service props e))"
  by (simp add: callbacks_def)

lemma callbacks_append: "callbacks (xs @ ys) props = callbacks ys (callbacks xs props)"
  by (simp add: callbacks_def)

lemma callbacks_not_Nil: "props \<noteq> [] \<Longrightarrow> callbacks es props \<noteq> []"
  by (induction es arbitrary: props)
    (simp_all add: callbacks_Nil callbacks_Cons add_service_not_Nil)

lemma callbacks_Nil_iff: "callbacks es [] = [] \<longleftrightarrow> (\<forall>e \<in> set es. e = None)"
proof (induction es)
  case Nil
  show ?case by (simp add: callbacks_Nil)
next
  case (Cons e es)
  show ?case
  proof (cases e)
    case None
    with Cons show ?thesis by (simp add: callbacks_Cons add_service_None)
  next
    case (Some i)
    then show ?thesis
      by (simp add: callbacks_Cons callbacks_not_Nil add_service_Some_not_Nil)
  qed
qed

lemma freebox_init_no_fault:
  "raises env = None \<Longrightarrow>
     freebox_Freebox_init env =
       (if \<forall>e \<in> set (events env). e = None
        then (Inl (FreeboxError not_found_message), full_trace)
        else (Inr (callbacks (events env) []), full_trace))"
  by (simp add: freebox_Freebox_init_def Freebox_init_def freebox_members_def Let_def
      callbacks_Nil_iff full_trace_def)

lemma keys_dict_setitem: "fst ` set (dict_setitem d k v) = insert k (fst ` set d)"
  by (simp add: dict_setitem_def dom_update)

lemma keys_store_txt: "fst ` set d \<subseteq> fst ` set (snd (store_txt d items))"
proof (induction items arbitrary: d)
  case Nil
  show ?case by simp
next
  case (Cons item items)
  show ?case
  proof (cases "decode_value (snd item)")
    case (Inl e)
    then show ?thesis by simp
  next
    case v: (Inr v)
    show ?thesis
    proof (cases "decode (fst item)")
      case (Inl e)
      with v show ?thesis by simp
    next
      case (Inr k)
      have "fst ` set d \<subseteq> fst ` set (dict_setitem d k (PStr v))"
        by (auto simp: keys_dict_setitem)
      also have "\<dots> \<subseteq> fst ` set (snd (store_txt (dict_setitem d k (PStr v)) items))"
        by (rule Cons.IH)
      finally show ?thesis using v Inr by simp
    qed
  qed
qed

lemma keys_add_service_Some:
  "{''name'', ''type'', ''server'', ''port'', ''address''} \<union> fst ` set props
     \<subseteq> fst ` set (snd (add_service props (Some i)))"
proof -
  let ?p5 = "dict_setitem (dict_setitem (dict_setitem (dict_setitem (dict_setitem props
      ''name'' (PStr (info_name i))) ''type'' (PStr (info_type i)))
      ''server'' (PStr (info_server i))) ''port'' (PInt (info_port i)))
      ''address'' (PStr (address_text (info_address i)))"
  have "{''name'', ''type'', ''server'', ''port'', ''address''} \<union> fst ` set props
          \<subseteq> fst ` set ?p5"
    by (simp only: keys_dict_setitem) blast
  also have "\<dots> \<subseteq> fst ` set (snd (store_txt ?p5 (info_properties i)))"
    by (rule keys_store_txt)
  finally show ?thesis by (simp add: add_service_def Let_def)
qed

lemma keys_add_service: "fst ` set props \<subseteq> fst ` set (snd (add_service props e))"
proof (cases e)
  case None
  then show ?thesis by (simp add: add_service_None)
next
  case (Some i)
  with keys_add_service_Some [of props i] show ?thesis by blast
qed

lemma keys_callbacks: "fst ` set props \<subseteq> fst ` set (callbacks es props)"
proof (induction es arbitrary: props)
  case Nil
  show ?case by (simp add: callbacks_Nil)
next
  case (Cons e es)
  have "fst ` set props \<subseteq> fst ` set (snd (add_service props e))"
    by (rule keys_add_service)
  also have "\<dots> \<subseteq> fst ` set (callbacks es (snd (add_service props e)))"
    by (rule Cons.IH)
  finally show ?case by (simp add: callbacks_Cons)
qed

lemma keys_after_resolved:
  assumes "Some i \<in> set es"
  shows "{''name'', ''type'', ''server'', ''port'', ''address''}
           \<subseteq> fst ` set (callbacks es props)"
proof -
  from assms obtain xs ys where es: "es = xs @ Some i # ys"
    by (auto dest: split_list)
  let ?before = "callbacks xs props"
  have "{''name'', ''type'', ''server'', ''port'', ''address''}
          \<subseteq> fst ` set (snd (add_service ?before (Some i)))"
    using keys_add_service_Some [of ?before i] by blast
  also have "\<dots> \<subseteq> fst ` set (callbacks ys (snd (add_service ?before (Some i))))"
    by (rule keys_callbacks)
  finally show ?thesis by (simp add: es callbacks_append callbacks_Cons)
qed

lemma not_all_None: "(\<not> (\<forall>e \<in> set es. e = None)) \<longleftrightarrow> (\<exists>i. Some i \<in> set es)"
  by (metis not_Some_eq)

lemma store_txt_other_key:
  "k \<notin> fst ` set items \<Longrightarrow> map_of (snd (store_txt d items)) k = map_of d k"
proof (induction items arbitrary: d)
  case Nil
  show ?case by simp
next
  case (Cons item items)
  then have k: "k \<noteq> fst item" and rest: "k \<notin> fst ` set items" by auto
  show ?case
  proof (cases "decode_value (snd item)")
    case (Inl e)
    then show ?thesis by simp
  next
    case v: (Inr v)
    show ?thesis
    proof (cases "decode (fst item)")
      case (Inl e)
      with v show ?thesis by simp
    next
      case (Inr k')
      then have "k' = fst item" by (rule decode_Inr)
      with v Inr k Cons.IH [OF rest, of "dict_setitem d k' (PStr v)"] show ?thesis
        by (simp add: dict_setitem_def update_conv')
    qed
  qed
qed

lemma store_txt_decodes:
  assumes "txt_decodes items" and "distinct (map fst items)"
  shows "fst (store_txt d items) = None \<and>
         (\<forall>item \<in> set items. \<exists>t. decode_value (snd item) = Inr t \<and>
            map_of (snd (store_txt d items)) (fst item) = Some (PStr t))"
  using assms
proof (induction items arbitrary: d)
  case Nil
  show ?case by simp
next
  case (Cons item items)
  from Cons.prems(1) have ok: "item_error item = None" and oks: "txt_decodes items"
    by (simp_all add: txt_decodes_def)
  from Cons.prems(2) have fresh: "fst item \<notin> fst ` set items" and dist: "distinct (map fst items)"
    by simp_all
  from ok obtain v where v: "decode_value (snd item) = Inr v"
    by (auto simp: item_error_def split: sum.splits)
  from ok v obtain k where k: "decode (fst item) = Inr k"
    by (auto simp: item_error_def split: sum.splits)
  then have kk: "k = fst item" by (rule decode_Inr)
  let ?d = "dict_setitem d k (PStr v)"
  have step: "store_txt d (item # items) = store_txt ?d items"
    using v k by simp
  have head: "map_of (snd (store_txt ?d items)) (fst item) = Some (PStr v)"
    using store_txt_other_key [OF fresh, of ?d] kk
    by (simp add: dict_setitem_def update_conv')
  from Cons.IH [OF oks dist, of ?d] head v show ?case
    unfolding step by auto
qed

lemma store_txt_stops:
  "txt_decodes pre \<Longrightarrow> item_error item = Some e \<Longrightarrow>
     store_txt d (pre @ item # post) = (Some e, snd (store_txt d pre))"
proof (induction pre arbitrary: d)
  case Nil
  then show ?case
    by (auto simp: item_error_def split: sum.splits)
next
  case (Cons p pre)
  from Cons.prems(1) have ok: "item_error p = None" and oks: "txt_decodes pre"
    by (simp_all add: txt_decodes_def)
  from ok obtain v k where "decode_value (snd p) = Inr v" and "decode (fst p) = Inr k"
    by (auto simp: item_error_def split: sum.splits)
  with Cons.IH [OF oks Cons.prems(2)] show ?case by simp
qed

lemma add_service_stops:
  "txt_decodes pre \<Longrightarrow> item_error item = Some e \<Longrightarrow>
     add_service props (Some (r\<lparr>info_properties := pre @ item # post\<rparr>)) =
       (Some e, snd (add_service props (Some (r\<lparr>info_properties := pre\<rparr>))))"
  by (simp add: add_service_def Let_def store_txt_stops)

lemma add_service_decodes:
  assumes "txt_decodes (info_properties r)" and "distinct (map fst (info_properties r))"
  shows "fst (add_service props (Some r)) = None \<and>
         (\<forall>item \<in> set (info_properties r). \<exists>t. decode_value (snd item) = Inr t \<and>
            map_of (snd (add_service props (Some r))) (fst item) = Some (PStr t))"
  using store_txt_decodes [OF assms] by (simp add: add_service_def Let_def)

lemma set_update_subset: "set (AList.update k v al) \<subseteq> insert (k, v) (set al)"
  by (induction al) auto

lemma inv_setitem:
  "list_all text_or_port d \<Longrightarrow> text_or_port (k, v) \<Longrightarrow>
     list_all text_or_port (dict_setitem d k v)"
  using set_update_subset [of k v d] by (auto simp: list_all_iff dict_setitem_def)

lemma inv_store_txt:
  "list_all text_or_port d \<Longrightarrow> list_all text_or_port (snd (store_txt d items))"
  by (induction items arbitrary: d)
    (simp_all add: inv_setitem text_or_port_def split: sum.split)

lemma inv_add_service:
  "list_all text_or_port props \<Longrightarrow> list_all text_or_port (snd (add_service props e))"
  by (cases e) (simp_all add: add_service_def Let_def inv_store_txt inv_setitem text_or_port_def)

lemma inv_callbacks:
  "list_all text_or_port props \<Longrightarrow> list_all text_or_port (callbacks es props)"
  by (induction es arbitrary: props)
    (simp_all add: callbacks_Nil callbacks_Cons inv_add_service)

lemma text_under_key:
  assumes "list_all text_or_port props" and "k \<in> fst ` set props" and "k \<noteq> ''port''"
  shows "\<exists>s. map_of props k = Some (PStr s)"
proof -
  from assms(2) obtain v where v: "map_of props k = Some v"
    by (metis domD dom_map_of_conv_image_fst)
  then have "(k, v) \<in> set props" by (rule map_of_SomeD)
  with assms(1) have "text_or_port (k, v)" by (simp add: list_all_iff)
  with assms(3) v show ?thesis by (cases v) (simp_all add: text_or_port_def)
qed

lemma freebox_init_Inr:
  assumes "fst (freebox_Freebox_init env) = Inr props"
  shows "props = callbacks (events env) []"
  using assms
  by (simp add: freebox_Freebox_init_def Freebox_init_def freebox_members_def Let_def
      split: if_splits)

lemma descriptor_text:
  assumes "fst (freebox_Freebox_init env) = Inr props"
    and "k \<in> fst ` set props" and "k \<noteq> ''port''"
  shows "\<exists>s. map_of props k = Some (PStr s)"
proof -
  have "list_all text_or_port props"
    using inv_callbacks [of "[]" "events env"] freebox_init_Inr [OF assms(1)] by simp
  then show ?thesis using assms(2,3) by (rule text_under_key)
qed

lemma full_api_url_descriptor:
  assumes "fst (freebox_Freebox_init env) = Inr props"
    and "{''api_domain'', ''api_base_url'', ''api_version''} \<subseteq> fst ` set props"
  shows "\<exists>d b v. map_of props ''api_domain'' = Some (PStr d) \<and>
           map_of props ''api_base_url'' = Some (PStr b) \<and>
           map_of props ''api_version'' = Some (PStr v) \<and>
           full_api_url props p =
             Inr (''https://'' @ d @ b @ ''v'' @ takeWhile (\<lambda>c. c \<noteq> CHR ''.'') v @ p)"
proof -
  from assms obtain d where d: "map_of props ''api_domain'' = Some (PStr d)"
    using descriptor_text [of env props "''api_domain''"] by auto
  from assms obtain b where b: "map_of props ''api_base_url'' = Some (PStr b)"
    using descriptor_text [of env props "''api_base_url''"] by auto
  from assms obtain v where v: "map_of props ''api_version'' = Some (PStr v)"
    using descriptor_text [of env props "''api_version''"] by auto
  from d b v show ?thesis by (simp add: full_api_url_text)
qed

lemma example_descriptor:
  "freebox_Freebox_init \<lparr>events = [Some example_info], raises = None\<rparr> =
     (Inr [(''name'', PStr ''Freebox Server._fbx-api._tcp.local.''),
           (''type'', PStr ''_fbx-api._tcp.local.''),
           (''server'', PStr ''Freebox-Server.local.''),
           (''port'', PInt 80),
           (''address'', PStr ''192.168.1.254''),
           (''api_version'', PStr ''8.1''),
           (''device_type'', PStr ''FreeboxServer7,1''),
           (''api_base_url'', PStr ''/api/''),
           (''uid'', PStr ''x''),
           (''api_domain'', PStr ''mafreebox.freeboxos.fr''),
           (''https_available'', PStr ''1''),
           (''https_port'', PStr ''4242'')],
      [OpenZeroconf, StartBrowser ''_fbx-api._tcp.local.'', CancelBrowser, CloseZeroconf])"
  by code_simp

text \<open>
  C1. For every properties dictionary that holds text under \<open>api_domain\<close>,
  \<open>api_base_url\<close> and \<open>api_version\<close>, the URL built for a path \<open>p\<close> is
  \<open>https://\<close>, the domain, the base URL, \<open>v\<close>, the part of the version before its first
  dot, and \<open>p\<close>: a function of these three values and \<open>p\<close> alone. Every descriptor
  that construction returns and that contains the three keys holds text under them, so
  its URL has this form. The version \<open>8.1\<close> gives the segment \<open>v8\<close>.
\<close>

theorem full_api_url_spec:
  "(map_of props ''api_domain'' = Some (PStr d) \<and>
    map_of props ''api_base_url'' = Some (PStr b) \<and>
    map_of props ''api_version'' = Some (PStr v) \<longrightarrow>
      full_api_url props p =
        Inr (''https://'' @ d @ b @ ''v'' @ takeWhile (\<lambda>c. c \<noteq> CHR ''.'') v @ p)) \<and>
   (fst (freebox_Freebox_init env) = Inr found \<and>
    {''api_domain'', ''api_base_url'', ''api_version''} \<subseteq> fst ` set found \<longrightarrow>
      (\<exists>d' b' v'. map_of found ''api_domain'' = Some (PStr d') \<and>
         map_of found ''api_base_url'' = Some (PStr b') \<and>
         map_of found ''api_version'' = Some (PStr v') \<and>
         full_api_url found p =
           Inr (''https://'' @ d' @ b' @ ''v'' @ takeWhile (\<lambda>c. c \<noteq> CHR ''.'') v' @ p))) \<and>
   index0 (split_on (CHR ''.'') ''8.1'') = Inr ''8''"
  using full_api_url_descriptor [of env found p]
  by (simp add: full_api_url_text)

theorem full_api_url_spec_witness:
  "map_of example_props ''api_domain'' = Some (PStr ''mafreebox.freeboxos.fr'') \<and>
   map_of example_props ''api_base_url'' = Some (PStr ''/api/'') \<and>
   map_of example_props ''api_version'' = Some (PStr ''8.1'') \<and>
   full_api_url example_props ''/login/'' = Inr ''https://mafreebox.freeboxos.fr/api/v8/login/'' \<and>
   (\<exists>found.
      fst (freebox_Freebox_init \<lparr>events = [Some example_info], raises = None\<rparr>) = Inr found \<and>
      {''api_domain'', ''api_base_url'', ''api_version''} \<subseteq> fst ` set found \<and>
      full_api_url found ''/login/'' = Inr ''https://mafreebox.freeboxos.fr/api/v8/login/'')"
proof -
  let ?env = "\<lparr>events = [Some example_info], raises = None\<rparr>"
  have a: "map_of example_props ''api_domain'' = Some (PStr ''mafreebox.freeboxos.fr'') \<and>
           map_of example_props ''api_base_url'' = Some (PStr ''/api/'') \<and>
           map_of example_props ''api_version'' = Some (PStr ''8.1'')"
    by (simp add: example_props_def)
  obtain found where f: "fst (freebox_Freebox_init ?env) = Inr found"
    and ks: "{''api_domain'', ''api_base_url'', ''api_version''} \<subseteq> fst ` set found"
    and vs: "map_of found ''api_domain'' = Some (PStr ''mafreebox.freeboxos.fr'')"
      "map_of found ''api_base_url'' = Some (PStr ''/api/'')"
      "map_of found ''api_version'' = Some (PStr ''8.1'')"
    by (simp add: example_descriptor)
  from full_api_url_spec [of example_props "''mafreebox.freeboxos.fr''" "''/api/''" "''8.1''"
      "''/login/''" ?env found] a
  have u1: "full_api_url example_props ''/login/'' =
              Inr ''https://mafreebox.freeboxos.fr/api/v8/login/''"
    by simp
  from full_api_url_spec [of example_props "''mafreebox.freeboxos.fr''" "''/api/''" "''8.1''"
      "''/login/''" ?env found] f ks vs
  have u2: "full_api_url found ''/login/'' = Inr ''https://mafreebox.freeboxos.fr/api/v8/login/''"
    by simp
  from a u1 f ks u2 show ?thesis by blast
qed

text \<open>
  C2, as stated, fails: a resolved record whose TXT record is empty yields a
  descriptor. Its properties hold none of the five keys, and the URL cannot be built
  from it.
\<close>

theorem construction_without_keys_counterexample:
  "fst (freebox_Freebox_init \<lparr>events = [Some bare_info], raises = None\<rparr>) =
     Inr [(''name'', PStr ''Freebox Server._fbx-api._tcp.local.''),
          (''type'', PStr ''_fbx-api._tcp.local.''),
          (''server'', PStr ''Freebox-Server.local.''),
          (''port'', PInt 80),
          (''address'', PStr ''192.168.1.254'')] \<and>
   full_api_url
     [(''name'', PStr ''Freebox Server._fbx-api._tcp.local.''),
      (''type'', PStr ''_fbx-api._tcp.local.''),
      (''server'', PStr ''Freebox-Server.local.''),
      (''port'', PInt 80),
      (''address'', PStr ''192.168.1.254'')] ''/login/authorize/'' =
     Inl (KeyError ''api_domain'')"
  by code_simp

lemma flag_record_loses_items:
  "add_service [] (Some flag_info) =
     (Some (AttributeError ''decode''),
      [(''name'', PStr ''Freebox Server._fbx-api._tcp.local.''),
       (''type'', PStr ''_fbx-api._tcp.local.''),
       (''server'', PStr ''Freebox-Server.local.''),
       (''port'', PInt 80),
       (''address'', PStr ''192.168.1.254''),
       (''api_version'', PStr ''8.1'')])"
  by code_simp

lemma example_txt_decodes:
  "txt_decodes (info_properties example_info) \<and> distinct (map fst (info_properties example_info))"
  by code_simp

lemma flag_item_error:
  "txt_decodes [(''api_version'', TxtBytes ''8.1'')] \<and>
   item_error (''https_available'', TxtBool True) = Some (AttributeError ''decode'')"
  by code_simp

text \<open>
  C2, amended. When the library calls return, construction raises \<open>FreeboxError\<close> when
  no \<open>add_service\<close> callback obtained a service record and returns a descriptor when
  one did; the properties then hold \<open>name\<close>, \<open>type\<close>, \<open>server\<close>, \<open>port\<close> and
  \<open>address\<close>. No TXT key is required and the form of \<open>api_version\<close> is not examined:
  the record may hold any TXT record. When all TXT items of the record of the last
  callback decode, and their keys differ, each key holds its decoded value in the
  descriptor. The first item that does not decode (a boolean value, or bytes that are not
  UTF-8) raises in the callback, and the items after it are not stored.
\<close>

theorem construction_succeeds_iff_resolved:
  "(raises env = None \<longrightarrow>
      ((\<forall>e \<in> set (events env). e = None) \<longrightarrow>
         fst (freebox_Freebox_init env) = Inl (FreeboxError not_found_message)) \<and>
      (Some i \<in> set (events env) \<longrightarrow>
         (\<exists>props. fst (freebox_Freebox_init env) = Inr props \<and>
            {''name'', ''type'', ''server'', ''port'', ''address''} \<subseteq> fst ` set props)) \<and>
      ((\<exists>props. fst (freebox_Freebox_init env) = Inr props) \<longleftrightarrow>
         (\<exists>j. Some j \<in> set (events env))) \<and>
      (\<forall>props. fst (freebox_Freebox_init env) = Inr props \<longrightarrow>
         {''name'', ''type'', ''server'', ''port'', ''address''} \<subseteq> fst ` set props) \<and>
      (events env = es @ [Some r] \<and> txt_decodes (info_properties r) \<and>
       distinct (map fst (info_properties r)) \<longrightarrow>
         (\<exists>props. fst (freebox_Freebox_init env) = Inr props \<and>
            (\<forall>item \<in> set (info_properties r). \<exists>t. decode_value (snd item) = Inr t \<and>
               map_of props (fst item) = Some (PStr t))))) \<and>
   (txt_decodes pre \<and> item_error item = Some e \<longrightarrow>
      add_service before (Some (q\<lparr>info_properties := pre @ item # post\<rparr>)) =
        (Some e, snd (add_service before (Some (q\<lparr>info_properties := pre\<rparr>)))))"
proof (intro conjI impI)
  assume ok: "raises env = None"
  show "fst (freebox_Freebox_init env) = Inl (FreeboxError not_found_message)"
    if "\<forall>e \<in> set (events env). e = None"
    using ok that by (simp add: freebox_init_no_fault)
  have some: "fst (freebox_Freebox_init env) = Inr (callbacks (events env) []) \<and>
              {''name'', ''type'', ''server'', ''port'', ''address''}
                \<subseteq> fst ` set (callbacks (events env) [])"
    if "Some j \<in> set (events env)" for j
  proof -
    from that have "\<not> (\<forall>e \<in> set (events env). e = None)"
      using not_all_None [of "events env"] by blast
    with ok keys_after_resolved [OF that, of "[]"] show ?thesis
      by (simp add: freebox_init_no_fault)
  qed
  show "\<exists>props. fst (freebox_Freebox_init env) = Inr props \<and>
          {''name'', ''type'', ''server'', ''port'', ''address''} \<subseteq> fst ` set props"
    if "Some i \<in> set (events env)"
    using some [OF that] by blast
  show "(\<exists>props. fst (freebox_Freebox_init env) = Inr props) \<longleftrightarrow>
          (\<exists>j. Some j \<in> set (events env))"
  proof (cases "\<forall>e \<in> set (events env). e = None")
    case True
    then have "\<not> (\<exists>j. Some j \<in> set (events env))"
      using not_all_None [of "events env"] by simp
    with True ok show ?thesis by (simp add: freebox_init_no_fault)
  next
    case False
    then obtain j where "Some j \<in> set (events env)"
      using not_all_None [of "events env"] by auto
    with some [of j] show ?thesis by blast
  qed
  show "\<forall>props. fst (freebox_Freebox_init env) = Inr props \<longrightarrow>
          {''name'', ''type'', ''server'', ''port'', ''address''} \<subseteq> fst ` set props"
  proof (cases "\<forall>e \<in> set (events env). e = None")
    case True
    with ok show ?thesis by (simp add: freebox_init_no_fault)
  next
    case False
    then obtain j where "Some j \<in> set (events env)"
      using not_all_None [of "events env"] by auto
    with some [of j] show ?thesis by simp
  qed
  show "\<exists>props. fst (freebox_Freebox_init env) = Inr props \<and>
          (\<forall>item \<in> set (info_properties r). \<exists>t. decode_value (snd item) = Inr t \<and>
             map_of props (fst item) = Some (PStr t))"
    if last: "events env = es @ [Some r] \<and> txt_decodes (info_properties r) \<and>
              distinct (map fst (info_properties r))"
  proof -
    from last have "Some r \<in> set (events env)" by simp
    from some [OF this]
    have res: "fst (freebox_Freebox_init env) = Inr (callbacks (events env) [])" by simp
    have "callbacks (events env) [] = snd (add_service (callbacks es []) (Some r))"
      using last by (simp add: callbacks_append callbacks_Cons callbacks_Nil)
    with add_service_decodes [of r "callbacks es []"] last res show ?thesis
      by simp
  qed
next
  assume "txt_decodes pre \<and> item_error item = Some e"
  then show "add_service before (Some (q\<lparr>info_properties := pre @ item # post\<rparr>)) =
               (Some e, snd (add_service before (Some (q\<lparr>info_properties := pre\<rparr>))))"
    by (simp add: add_service_stops)
qed

theorem construction_succeeds_iff_resolved_witness:
  "raises \<lparr>events = [None], raises = None\<rparr> = None \<and>
   fst (freebox_Freebox_init \<lparr>events = [None], raises = None\<rparr>) =
     Inl (FreeboxError not_found_message) \<and>
   events \<lparr>events = [None, Some example_info], raises = None\<rparr> = [None] @ [Some example_info] \<and>
   txt_decodes (info_properties example_info) \<and>
   distinct (map fst (info_properties example_info)) \<and>
   (\<exists>props.
      fst (freebox_Freebox_init \<lparr>events = [None, Some example_info], raises = None\<rparr>) = Inr props \<and>
      {''name'', ''type'', ''server'', ''port'', ''address''} \<subseteq> fst ` set props \<and>
      map_of props ''api_version'' = Some (PStr ''8.1'') \<and>
      map_of props ''api_domain'' = Some (PStr ''mafreebox.freeboxos.fr'')) \<and>
   txt_decodes [(''api_version'', TxtBytes ''8.1'')] \<and>
   item_error (''https_available'', TxtBool True) = Some (AttributeError ''decode'') \<and>
   add_service [] (Some (example_info\<lparr>info_properties :=
       [(''api_version'', TxtBytes ''8.1'')] @ (''https_available'', TxtBool True)
         # [(''api_domain'', TxtBytes ''mafreebox.freeboxos.fr'')]\<rparr>)) =
     (Some (AttributeError ''decode''),
      snd (add_service [] (Some (example_info\<lparr>info_properties :=
        [(''api_version'', TxtBytes ''8.1'')]\<rparr>))))"
proof -
  let ?env0 = "\<lparr>events = [None], raises = None\<rparr>"
  let ?env1 = "\<lparr>events = [None, Some example_info], raises = None\<rparr>"
  let ?pre = "[(''api_version'', TxtBytes ''8.1'')]"
  let ?item = "(''https_available'', TxtBool True)"
  let ?post = "[(''api_domain'', TxtBytes ''mafreebox.freeboxos.fr'')]"
  note t0 = construction_succeeds_iff_resolved [where env = ?env0 and i = example_info
      and es = "[]" and r = example_info and pre = ?pre and item = ?item
      and e = "AttributeError ''decode''" and before = "[]" and q = example_info
      and post = ?post]
  note t1 = construction_succeeds_iff_resolved [where env = ?env1 and i = example_info
      and es = "[None]" and r = example_info and pre = ?pre and item = ?item
      and e = "AttributeError ''decode''" and before = "[]" and q = example_info
      and post = ?post]
  have a: "fst (freebox_Freebox_init ?env0) = Inl (FreeboxError not_found_message)"
    using t0 by simp
  have ev: "events ?env1 = [None] @ [Some example_info]" by simp
  have inn: "Some example_info \<in> set (events ?env1)" by simp
  from t1 ev example_txt_decodes
  obtain props where p: "fst (freebox_Freebox_init ?env1) = Inr props"
    and items: "\<forall>item \<in> set (info_properties example_info).
        \<exists>t. decode_value (snd item) = Inr t \<and> map_of props (fst item) = Some (PStr t)"
    by auto
  from t1 p have ks: "{''name'', ''type'', ''server'', ''port'', ''address''} \<subseteq> fst ` set props"
    by simp
  have m1: "(''api_version'', TxtBytes ''8.1'') \<in> set (info_properties example_info)"
    and m2: "(''api_domain'', TxtBytes ''mafreebox.freeboxos.fr'')
               \<in> set (info_properties example_info)"
    by (simp_all add: example_info_def)
  from items m1 have v1: "map_of props ''api_version'' = Some (PStr ''8.1'')"
    by (fastforce simp: decode_def split: if_splits)
  from items m2 have v2: "map_of props ''api_domain'' = Some (PStr ''mafreebox.freeboxos.fr'')"
    by (fastforce simp: decode_def split: if_splits)
  have stop: "add_service [] (Some (example_info\<lparr>info_properties := ?pre @ ?item # ?post\<rparr>)) =
      (Some (AttributeError ''decode''),
       snd (add_service [] (Some (example_info\<lparr>info_properties := ?pre\<rparr>))))"
    using t1 flag_item_error by simp
  from a ev example_txt_decodes p ks v1 v2 flag_item_error stop show ?thesis
    by (intro conjI exI [of _ props]) simp_all
qed

text \<open>
  C6 on freeprobe.py: two callbacks arrive during the wait, the first with a resolved
  record, the second with none. The listener keeps the last result, so the constructor
  raises \<open>FreeboxError\<close> although a record was resolved. On the same callbacks the
  constructor of freebox.py returns a descriptor.
\<close>

theorem freeprobe_forgets_resolved_record:
  "freeprobe_Freebox_init \<lparr>events = [Some example_info, None], raises = None\<rparr> =
     (Inl (FreeboxError ''Fatal: Unable to find a Freebox on the local network!''),
      [OpenZeroconf, StartBrowser ''_fbx-api._tcp.local.'', CancelBrowser, CloseZeroconf]) \<and>
   (\<exists>props. fst (freebox_Freebox_init \<lparr>events = [Some example_info, None], raises = None\<rparr>)
      = Inr props)"
  by (simp add: freeprobe_Freebox_init_def freeprobe_add_service_def not_found_message_def
      TYPE_const_def freebox_init_no_fault)

text \<open>
  On freebox.py both halves of C6 hold when the library calls return: no resolved
  record gives \<open>FreeboxError\<close>, a resolved record gives a descriptor.
\<close>

lemma freebox_discovery_outcome:
  assumes "raises env = None"
  shows "(\<forall>e \<in> set (events env). e = None) \<Longrightarrow>
           fst (freebox_Freebox_init env) = Inl (FreeboxError not_found_message)"
    and "Some i \<in> set (events env) \<Longrightarrow> \<exists>props. fst (freebox_Freebox_init env) = Inr props"
  using assms by (auto simp: freebox_init_no_fault)

text \<open>On freeprobe.py the outcome is decided by the last callback alone.\<close>

lemma freeprobe_held:
  "fold (\<lambda>e h. freeprobe_add_service h e) es h = (if es = [] then h else last es)"
  by (induction es arbitrary: h) (simp_all add: freeprobe_add_service_def)

lemma freeprobe_discovery_outcome:
  assumes "raises env = None"
  shows "(\<exists>i. fst (freeprobe_Freebox_init env) = Inr i) \<longleftrightarrow>
           (events env \<noteq> [] \<and> last (events env) \<noteq> None)"
  using assms
  by (auto simp: freeprobe_Freebox_init_def freeprobe_held Let_def split: option.splits)

text \<open>
  C7, as stated, fails: when the wait is interrupted, or when the browser cannot be
  started, the exception leaves the constructor with zeroconf open; no cancel and no
  close is made.
\<close>

theorem teardown_skipped_counterexample:
  "freebox_Freebox_init \<lparr>events = [Some example_info], raises = Some sleep_call\<rparr> =
     (Inl (LibraryError sleep_call), [OpenZeroconf, StartBrowser ''_fbx-api._tcp.local.'']) \<and>
   CancelBrowser \<notin> set (snd (freebox_Freebox_init
     \<lparr>events = [Some example_info], raises = Some sleep_call\<rparr>)) \<and>
   CloseZeroconf \<notin> set (snd (freebox_Freebox_init
     \<lparr>events = [Some example_info], raises = Some sleep_call\<rparr>)) \<and>
   freebox_Freebox_init \<lparr>events = [], raises = Some ServiceBrowser_call\<rparr> =
     (Inl (LibraryError ServiceBrowser_call), [OpenZeroconf]) \<and>
   freeprobe_Freebox_init \<lparr>events = [], raises = Some sleep_call\<rparr> =
     (Inl (LibraryError sleep_call), [OpenZeroconf, StartBrowser ''_fbx-api._tcp.local.''])"
  by (simp add: freebox_Freebox_init_def Freebox_init_def freebox_members_def
      freeprobe_Freebox_init_def TYPE_const_def)

text \<open>
  C7, amended. On the two return paths on which every library call returns (a record
  was found and the constructor returns, or none was found and it raises
  \<open>FreeboxError\<close>) the browser has been cancelled and then zeroconf closed before
  control returns, in freebox.py and in freeprobe.py. When starting the browser, the wait
  or the cancel raises, that exception leaves the constructor and zeroconf is not closed.
\<close>

theorem teardown_when_calls_return:
  "(raises env = None \<longrightarrow>
      snd (freebox_Freebox_init env) =
        [OpenZeroconf, StartBrowser TYPE_const, CancelBrowser, CloseZeroconf] \<and>
      snd (freeprobe_Freebox_init env) =
        [OpenZeroconf, StartBrowser TYPE_const, CancelBrowser, CloseZeroconf]) \<and>
   (raises env = Some ServiceBrowser_call \<or> raises env = Some sleep_call \<or>
    raises env = Some cancel_call \<longrightarrow>
      CloseZeroconf \<notin> set (snd (freebox_Freebox_init env)) \<and>
      CloseZeroconf \<notin> set (snd (freeprobe_Freebox_init env)) \<and>
      (\<exists>c. raises env = Some c \<and>
         fst (freebox_Freebox_init env) = Inl (LibraryError c) \<and>
         fst (freeprobe_Freebox_init env) = Inl (LibraryError c)))"
  by (auto simp: freebox_Freebox_init_def Freebox_init_def freebox_members_def
      freeprobe_Freebox_init_def Let_def split: option.splits)

theorem teardown_when_calls_return_witness:
  "raises \<lparr>events = [Some example_info], raises = None\<rparr> = None \<and>
   snd (freebox_Freebox_init \<lparr>events = [Some example_info], raises = None\<rparr>) =
     [OpenZeroconf, StartBrowser TYPE_const, CancelBrowser, CloseZeroconf] \<and>
   snd (freeprobe_Freebox_init \<lparr>events = [Some example_info], raises = None\<rparr>) =
     [OpenZeroconf, StartBrowser TYPE_const, CancelBrowser, CloseZeroconf] \<and>
   raises \<lparr>events = [], raises = Some cancel_call\<rparr> = Some cancel_call \<and>
   CloseZeroconf \<notin> set (snd (freebox_Freebox_init \<lparr>events = [], raises = Some cancel_call\<rparr>)) \<and>
   CloseZeroconf \<notin> set (snd (freeprobe_Freebox_init \<lparr>events = [], raises = Some cancel_call\<rparr>)) \<and>
   fst (freebox_Freebox_init \<lparr>events = [], raises = Some cancel_call\<rparr>) =
     Inl (LibraryError cancel_call) \<and>
   fst (freeprobe_Freebox_init \<lparr>events = [], raises = Some cancel_call\<rparr>) =
     Inl (LibraryError cancel_call)"
  using teardown_when_calls_return [of "\<lparr>events = [Some example_info], raises = None\<rparr>"]
    teardown_when_calls_return [of "\<lparr>events = [], raises = Some cancel_call\<rparr>"]
  by simp

section \<open>The class of fbx.py and the script\<close>

lemma fbx_no_MDNSListener: "''MDNSListener'' \<notin> set fbx_members"
  by (simp add: fbx_members_def)

text \<open>
  C10. The constructor of the \<open>Freebox\<close> class of fbx.py raises \<open>AttributeError\<close> on
  \<open>MDNSListener\<close> in every environment, before any call into zeroconf; \<open>main\<close> of
  fbxmetrics.py catches \<open>FreeboxError\<close> only, so once the arguments are parsed it ends
  with that exception uncaught, and in no run does it enter \<open>register\<close> or
  \<open>get_metrics\<close> or do anything else observable.
\<close>

theorem fbx_constructor_raises:
  "fbx_Freebox_init denv = (Inl (AttributeError ''MDNSListener''), []) \<and>
   main (Parsed arg_register arg_dry_run) denv cenv =
     (Uncaught (AttributeError ''MDNSListener''), []) \<and>
   snd (main args denv cenv) = [] \<and>
   fst (main args denv cenv) \<noteq> Returned"
  by (cases args)
    (simp_all add: fbx_Freebox_init_def Freebox_init_def fbx_no_MDNSListener main_def)

section \<open>The session password\<close>

lemma replicate_unfold: "replicate n x = (if n = 0 then [] else x # replicate (n - 1) x)"
  by (cases n) simp_all

lemma pad_known:
  "length m = n \<Longrightarrow>
     pad m = m @ [0x80] @ replicate ((119 - n mod 64) mod 64) 0 @ length_bytes n"
  by (simp add: pad_def)

lemma encode_secret: "encode ''secret'' = [0x73, 0x65, 0x63, 0x72, 0x65, 0x74]"
  by (simp add: encode_def)

lemma encode_abc123: "encode ''abc123'' = [0x61, 0x62, 0x63, 0x31, 0x32, 0x33]"
  by (simp add: encode_def)

lemma hmac_key_secret:
  "hmac_key (encode ''secret'') =
     [0x73, 0x65, 0x63, 0x72, 0x65, 0x74, 0x00, 0x00, 0x00, 0x00,
      0x00, 0x00, 0x00, 0x00, 0x00, 0x00, 0x00, 0x00, 0x00, 0x00,
      0x00, 0x00, 0x00, 0x00, 0x00, 0x00, 0x00, 0x00, 0x00, 0x00,
      0x00, 0x00, 0x00, 0x00, 0x00, 0x00, 0x00, 0x00, 0x00, 0x00,
      0x00, 0x00, 0x00, 0x00, 0x00, 0x00, 0x00, 0x00, 0x00, 0x00,
      0x00, 0x00, 0x00, 0x00, 0x00, 0x00, 0x00, 0x00, 0x00, 0x00,
      0x00, 0x00, 0x00, 0x00]"
  by (simp add: encode_secret hmac_key_def replicate_unfold)

lemma inner_message:
  "map (\<lambda>b. b XOR 0x36) (hmac_key (encode ''secret'')) @ encode ''abc123'' =
     [0x45, 0x53, 0x55, 0x44, 0x53, 0x42, 0x36, 0x36, 0x36, 0x36,
      0x36, 0x36, 0x36, 0x36, 0x36, 0x36, 0x36, 0x36, 0x36, 0x36,
      0x36, 0x36, 0x36, 0x36, 0x36, 0x36, 0x36, 0x36, 0x36, 0x36,
      0x36, 0x36, 0x36, 0x36, 0x36, 0x36, 0x36, 0x36, 0x36, 0x36,
      0x36, 0x36, 0x36, 0x36, 0x36, 0x36, 0x36, 0x36, 0x36, 0x36,
      0x36, 0x36, 0x36, 0x36, 0x36, 0x36, 0x36, 0x36, 0x36, 0x36,
      0x36, 0x36, 0x36, 0x36, 0x61, 0x62, 0x63, 0x31, 0x32, 0x33]"
  by (simp add: hmac_key_secret encode_abc123)

lemma inner_words:
  "words_of (pad
     [0x45, 0x53, 0x55, 0x44, 0x53, 0x42, 0x36, 0x36, 0x36, 0x36,
      0x36, 0x36, 0x36, 0x36, 0x36, 0x36, 0x36, 0x36, 0x36, 0x36,
      0x36, 0x36, 0x36, 0x36, 0x36, 0x36, 0x36, 0x36, 0x36, 0x36,
      0x36, 0x36, 0x36, 0x36, 0x36, 0x36, 0x36, 0x36, 0x36, 0x36,
      0x36, 0x36, 0x36, 0x36, 0x36, 0x36, 0x36, 0x36, 0x36, 0x36,
      0x36, 0x36, 0x36, 0x36, 0x36, 0x36, 0x36, 0x36, 0x36, 0x36,
      0x36, 0x36, 0x36, 0x36, 0x61, 0x62, 0x63, 0x31, 0x32, 0x33]) =
     [0x45535544, 0x53423636, 0x36363636, 0x36363636, 0x36363636, 0x36363636,
      0x36363636, 0x36363636, 0x36363636, 0x36363636, 0x36363636, 0x36363636,
      0x36363636, 0x36363636, 0x36363636, 0x36363636, 0x61626331, 0x32338000,
      0x00000000, 0x00000000, 0x00000000, 0x00000000, 0x00000000, 0x00000000,
      0x00000000, 0x00000000, 0x00000000, 0x00000000, 0x00000000, 0x00000000,
      0x00000000, 0x00000230]"
  by (simp add: pad_known [of _ 70] replicate_unfold length_bytes_def bytes_of32_def be32_def)

lemma compress_inner_1:
  "compress sha1_init
     [0x45535544, 0x53423636, 0x36363636, 0x36363636, 0x36363636, 0x36363636,
      0x36363636, 0x36363636, 0x36363636, 0x36363636, 0x36363636, 0x36363636,
      0x36363636, 0x36363636, 0x36363636, 0x36363636] =
   (0xAEE17243, 0x3DF3E96B, 0xA4F00FB1, 0xB6A490C3, 0x929D2034)"
  by (simp add: compress_def schedule_def extend.simps rotl_def sha1_f_def sha1_k_def sha1_init_def)

lemma compress_inner_2:
  "compress (0xAEE17243, 0x3DF3E96B, 0xA4F00FB1, 0xB6A490C3, 0x929D2034)
     [0x61626331, 0x32338000, 0x00000000, 0x00000000, 0x00000000, 0x00000000,
      0x00000000, 0x00000000, 0x00000000, 0x00000000, 0x00000000, 0x00000000,
      0x00000000, 0x00000000, 0x00000000, 0x00000230] =
   (0xAA84442E, 0x1BF1C967, 0xBAC62B42, 0x3785459F, 0xDB9A5F69)"
  by (simp add: compress_def schedule_def extend.simps rotl_def sha1_f_def sha1_k_def)

lemma sha1_inner:
  "sha1
     [0x45, 0x53, 0x55, 0x44, 0x53, 0x42, 0x36, 0x36, 0x36, 0x36,
      0x36, 0x36, 0x36, 0x36, 0x36, 0x36, 0x36, 0x36, 0x36, 0x36,
      0x36, 0x36, 0x36, 0x36, 0x36, 0x36, 0x36, 0x36, 0x36, 0x36,
      0x36, 0x36, 0x36, 0x36, 0x36, 0x36, 0x36, 0x36, 0x36, 0x36,
      0x36, 0x36, 0x36, 0x36, 0x36, 0x36, 0x36, 0x36, 0x36, 0x36,
      0x36, 0x36, 0x36, 0x36, 0x36, 0x36, 0x36, 0x36, 0x36, 0x36,
      0x36, 0x36, 0x36, 0x36, 0x61, 0x62, 0x63, 0x31, 0x32, 0x33] =
     [0xAA, 0x84, 0x44, 0x2E, 0x1B, 0xF1, 0xC9, 0x67, 0xBA, 0xC6,
      0x2B, 0x42, 0x37, 0x85, 0x45, 0x9F, 0xDB, 0x9A, 0x5F, 0x69]"
  by (simp add: sha1_def inner_words blocks.simps compress_inner_1 compress_inner_2
      bytes_of32_def)

lemma outer_message:
  "map (\<lambda>b. b XOR 0x5C) (hmac_key (encode ''secret''))
     @ [0xAA, 0x84, 0x44, 0x2E, 0x1B, 0xF1, 0xC9, 0x67, 0xBA, 0xC6,
      0x2B, 0x42, 0x37, 0x85, 0x45, 0x9F, 0xDB, 0x9A, 0x5F, 0x69] =
     [0x2F, 0x39, 0x3F, 0x2E, 0x39, 0x28, 0x5C, 0x5C, 0x5C, 0x5C,
      0x5C, 0x5C, 0x5C, 0x5C, 0x5C, 0x5C, 0x5C, 0x5C, 0x5C, 0x5C,
      0x5C, 0x5C, 0x5C, 0x5C, 0x5C, 0x5C, 0x5C, 0x5C, 0x5C, 0x5C,
      0x5C, 0x5C, 0x5C, 0x5C, 0x5C, 0x5C, 0x5C, 0x5C, 0x5C, 0x5C,
      0x5C, 0x5C, 0x5C, 0x5C, 0x5C, 0x5C, 0x5C, 0x5C, 0x5C, 0x5C,
      0x5C, 0x5C, 0x5C, 0x5C, 0x5C, 0x5C, 0x5C, 0x5C, 0x5C, 0x5C,
      0x5C, 0x5C, 0x5C, 0x5C, 0xAA, 0x84, 0x44, 0x2E, 0x1B, 0xF1,
      0xC9, 0x67, 0xBA, 0xC6, 0x2B, 0x42, 0x37, 0x85, 0x45, 0x9F,
      0xDB, 0x9A, 0x5F, 0x69]"
  by (simp add: hmac_key_secret)

lemma outer_words:
  "words_of (pad
     [0x2F, 0x39, 0x3F, 0x2E, 0x39, 0x28, 0x5C, 0x5C, 0x5C, 0x5C,
      0x5C, 0x5C, 0x5C, 0x5C, 0x5C, 0x5C, 0x5C, 0x5C, 0x5C, 0x5C,
      0x5C, 0x5C, 0x5C, 0x5C, 0x5C, 0x5C, 0x5C, 0x5C, 0x5C, 0x5C,
      0x5C, 0x5C, 0x5C, 0x5C, 0x5C, 0x5C, 0x5C, 0x5C, 0x5C, 0x5C,
      0x5C, 0x5C, 0x5C, 0x5C, 0x5C, 0x5C, 0x5C, 0x5C, 0x5C, 0x5C,
      0x5C, 0x5C, 0x5C, 0x5C, 0x5C, 0x5C, 0x5C, 0x5C, 0x5C, 0x5C,
      0x5C, 0x5C, 0x5C, 0x5C, 0xAA, 0x84, 0x44, 0x2E, 0x1B, 0xF1,
      0xC9, 0x67, 0xBA, 0xC6, 0x2B, 0x42, 0x37, 0x85, 0x45, 0x9F,
      0xDB, 0x9A, 0x5F, 0x69]) =
     [0x2F393F2E, 0x39285C5C, 0x5C5C5C5C, 0x5C5C5C5C, 0x5C5C5C5C, 0x5C5C5C5C,
      0x5C5C5C5C, 0x5C5C5C5C, 0x5C5C5C5C, 0x5C5C5C5C, 0x5C5C5C5C, 0x5C5C5C5C,
      0x5C5C5C5C, 0x5C5C5C5C, 0x5C5C5C5C, 0x5C5C5C5C, 0xAA84442E, 0x1BF1C967,
      0xBAC62B42, 0x3785459F, 0xDB9A5F69, 0x80000000, 0x00000000, 0x00000000,
      0x00000000, 0x00000000, 0x00000000, 0x00000000, 0x00000000, 0x00000000,
      0x00000000, 0x000002A0]"
  by (simp add: pad_known [of _ 84] replicate_unfold length_bytes_def bytes_of32_def be32_def)

lemma compress_outer_1:
  "compress sha1_init
     [0x2F393F2E, 0x39285C5C, 0x5C5C5C5C, 0x5C5C5C5C, 0x5C5C5C5C, 0x5C5C5C5C,
      0x5C5C5C5C, 0x5C5C5C5C, 0x5C5C5C5C, 0x5C5C5C5C, 0x5C5C5C5C, 0x5C5C5C5C,
      0x5C5C5C5C, 0x5C5C5C5C, 0x5C5C5C5C, 0x5C5C5C5C] =
   (0x091E0F4C, 0x6CB5277E, 0xE2BEB639, 0xA60D0831, 0xB5C8ADCD)"
  by (simp add: compress_def schedule_def extend.simps rotl_def sha1_f_def sha1_k_def sha1_init_def)

lemma compress_outer_2:
  "compress (0x091E0F4C, 0x6CB5277E, 0xE2BEB639, 0xA60D0831, 0xB5C8ADCD)
     [0xAA84442E, 0x1BF1C967, 0xBAC62B42, 0x3785459F, 0xDB9A5F69, 0x80000000,
      0x00000000, 0x00000000, 0x00000000, 0x00000000, 0x00000000, 0x00000000,
      0x00000000, 0x00000000, 0x00000000, 0x000002A0] =
   (0x8657345C, 0xE1D0A730, 0x4B31540A, 0x34EC4355, 0xA86C2B69)"
  by (simp add: compress_def schedule_def extend.simps rotl_def sha1_f_def sha1_k_def)

lemma sha1_outer:
  "sha1
     [0x2F, 0x39, 0x3F, 0x2E, 0x39, 0x28, 0x5C, 0x5C, 0x5C, 0x5C,
      0x5C, 0x5C, 0x5C, 0x5C, 0x5C, 0x5C, 0x5C, 0x5C, 0x5C, 0x5C,
      0x5C, 0x5C, 0x5C, 0x5C, 0x5C, 0x5C, 0x5C, 0x5C, 0x5C, 0x5C,
      0x5C, 0x5C, 0x5C, 0x5C, 0x5C, 0x5C, 0x5C, 0x5C, 0x5C, 0x5C,
      0x5C, 0x5C, 0x5C, 0x5C, 0x5C, 0x5C, 0x5C, 0x5C, 0x5C, 0x5C,
      0x5C, 0x5C, 0x5C, 0x5C, 0x5C, 0x5C, 0x5C, 0x5C, 0x5C, 0x5C,
      0x5C, 0x5C, 0x5C, 0x5C, 0xAA, 0x84, 0x44, 0x2E, 0x1B, 0xF1,
      0xC9, 0x67, 0xBA, 0xC6, 0x2B, 0x42, 0x37, 0x85, 0x45, 0x9F,
      0xDB, 0x9A, 0x5F, 0x69] =
     [0x86, 0x57, 0x34, 0x5C, 0xE1, 0xD0, 0xA7, 0x30, 0x4B, 0x31,
      0x54, 0x0A, 0x34, 0xEC, 0x43, 0x55, 0xA8, 0x6C, 0x2B, 0x69]"
  by (simp add: sha1_def outer_words blocks.simps compress_outer_1 compress_outer_2
      bytes_of32_def)

lemma hmac_sha1_secret_abc123:
  "hmac_sha1 (encode ''secret'') (encode ''abc123'') =
     [0x86, 0x57, 0x34, 0x5C, 0xE1, 0xD0, 0xA7, 0x30, 0x4B, 0x31,
      0x54, 0x0A, 0x34, 0xEC, 0x43, 0x55, 0xA8, 0x6C, 0x2B, 0x69]"
  by (simp only: hmac_sha1_def inner_message sha1_inner outer_message sha1_outer)

lemma password_secret_abc123:
  "password ''secret'' ''abc123'' = ''8657345ce1d0a7304b31540a34ec4355a86c2b69''"
  by (simp add: password_def hmac_sha1_secret_abc123 hex_def hex_digit_def)

lemma open_session_trace:
  "device env (GET (base_url @ ''/login/'')) = Inr r \<Longrightarrow>
   map_of (json r) ''challenge'' = Some (PStr challenge) \<Longrightarrow>
     snd (open_session base_url app_id app_token env) =
       [Http (GET (base_url @ ''/login/'')),
        Http (POST (base_url @ ''/login/session/'')
          [(''app_id'', PStr app_id), (''password'', PStr (password app_token challenge))])]"
  by (simp add: open_session_def Let_def split: sum.split option.split pyval.split)

text \<open>
  C9. For every app token and every challenge that GET \<open>/login/\<close> returns, the
  session-open POST of the modelled \<open>openSession\<close> carries as password the
  hex-encoded HMAC-SHA1 digest with the token as key and the challenge as message; for
  the token \<open>secret\<close> and the challenge \<open>abc123\<close> this is the reference digest
  \<open>8657345ce1d0a7304b31540a34ec4355a86c2b69\<close>.
\<close>

theorem session_password:
  "(device env (GET (base_url @ ''/login/'')) = Inr r \<and>
    map_of (json r) ''challenge'' = Some (PStr challenge) \<longrightarrow>
      snd (open_session base_url app_id app_token env) =
        [Http (GET (base_url @ ''/login/'')),
         Http (POST (base_url @ ''/login/session/'')
           [(''app_id'', PStr app_id),
            (''password'', PStr (hex (hmac_sha1 (encode app_token) (encode challenge))))])]) \<and>
   hex (hmac_sha1 (encode ''secret'') (encode ''abc123'')) =
     ''8657345ce1d0a7304b31540a34ec4355a86c2b69''"
  using password_secret_abc123
  by (simp add: open_session_trace password_def)

theorem session_password_witness:
  "device challenge_env (GET (''https://mafreebox.freeboxos.fr/api/v8'' @ ''/login/'')) =
     Inr \<lparr>status_code = 200, json = [(''challenge'', PStr ''abc123'')]\<rparr> \<and>
   map_of (json \<lparr>status_code = 200, json = [(''challenge'', PStr ''abc123'')]\<rparr>) ''challenge'' =
     Some (PStr ''abc123'') \<and>
   snd (open_session ''https://mafreebox.freeboxos.fr/api/v8'' ''fr.freebox.freeprobe'' ''secret''
          challenge_env) =
     [Http (GET ''https://mafreebox.freeboxos.fr/api/v8/login/''),
      Http (POST ''https://mafreebox.freeboxos.fr/api/v8/login/session/''
        [(''app_id'', PStr ''fr.freebox.freeprobe''),
         (''password'', PStr ''8657345ce1d0a7304b31540a34ec4355a86c2b69'')])]"
  using session_password [of challenge_env "''https://mafreebox.freeboxos.fr/api/v8''"
      "\<lparr>status_code = 200, json = [(''challenge'', PStr ''abc123'')]\<rparr>" "''abc123''"
      "''fr.freebox.freeprobe''" "''secret''"]
  by (simp add: challenge_env_def challenge_device_def)

end
